theory Spec2Isabelle
  imports Complex_Main "HOL-Library.Sublist"
begin

section \<open>Python values used by the downloader\<close>

text \<open>
  Strings are \<^typ>\<open>string\<close>; an \<open>Optional[str]\<close> is a \<^typ>\<open>string option\<close>.
  Python treats \<open>None\<close> and the empty string as false; \<open>a or b\<close> yields \<open>a\<close> when
  \<open>a\<close> is true and \<open>b\<close> otherwise.
\<close>

definition truthy_str :: "string option \<Rightarrow> bool" where
  "truthy_str s = (case s of None \<Rightarrow> False | Some t \<Rightarrow> t \<noteq> [])"

definition py_or :: "string option \<Rightarrow> string option \<Rightarrow> string option" where
  "py_or a b = (if truthy_str a then a else b)"

text \<open>\<open>s.endswith(suf)\<close>, computed on the last \<open>len(suf)\<close> characters of \<open>s\<close>.\<close>

definition endswith :: "string \<Rightarrow> string \<Rightarrow> bool" where
  "endswith s suf = (length suf \<le> length s \<and> drop (length s - length suf) s = suf)"

text \<open>\<open>s.lstrip(c)\<close> for a one-character argument: every leading \<open>c\<close> is removed.\<close>

definition lstrip :: "char \<Rightarrow> string \<Rightarrow> string" where
  "lstrip c s = dropWhile (\<lambda>d. d = c) s"

text \<open>
  \<open>any(p(x) for x in xs)\<close>: the generator is consumed from the left until the first
  element that satisfies \<open>p\<close>.
\<close>

fun py_any :: "('a \<Rightarrow> bool) \<Rightarrow> 'a list \<Rightarrow> bool" where
  "py_any p [] = False"
| "py_any p (x # xs) = (if p x then True else py_any p xs)"

text \<open>
  \<open>xs[:m]\<close> for an integer \<open>m\<close>: a non-negative stop keeps the first \<open>m\<close> elements, a
  negative stop counts from the end and is clamped at the start of the list.
\<close>

definition slice_to :: "int \<Rightarrow> 'a list \<Rightarrow> 'a list" where
  "slice_to m xs = (if 0 \<le> m then take (nat m) xs else take (nat (int (length xs) + m)) xs)"

text \<open>
  The ASCII part of \<open>str.lower\<close>; the filter below takes the lower-casing function as a
  parameter, and this instance is used to run it on concrete keys.
\<close>

definition ascii_lower_char :: "char \<Rightarrow> char" where
  "ascii_lower_char c =
     (let n = (of_char c :: nat) in if 65 \<le> n \<and> n \<le> 90 then char_of (n + 32) else c)"

definition ascii_lower :: "string \<Rightarrow> string" where
  "ascii_lower s = map ascii_lower_char s"

section \<open>Data model\<close>

text \<open>
  The dictionary that \<open>list_objects\<close> builds for one object. The field \<open>size\<close> of the
  source is \<open>size_bytes\<close> here; the timestamp is opaque to every function modelled.
\<close>

record obj =
  key :: string
  size_bytes :: int
  last_modified :: int
  etag :: string

text \<open>
  The dictionary returned by \<open>download_directory\<close>. The two early returns of the source
  build it without the entry \<open>total_files\<close>, hence the option.
\<close>

record stats =
  success :: bool
  downloaded :: int
  failed :: int
  errors :: "string list"
  total_files :: "int option"

text \<open>The attributes of \<open>S3Downloader\<close> that the methods read.\<close>

record downloader =
  bucket_name :: "string option"
  download_path :: string

text \<open>
  Exceptions raised by the storage client and the file system: botocore's
  \<open>ClientError\<close> with the code found at \<open>e.response['Error']['Code']\<close>, and any other
  subclass of \<open>Exception\<close> with its name.
\<close>

datatype exn = ClientError string | OtherException string

section \<open>Filter stage\<close>

text \<open>
  Lines 226 to 231 of \<open>download_directory\<close>: with a non-empty list of extensions, the
  records whose lower-cased key ends in the lower-cased form of some extension are kept;
  with \<open>None\<close> or an empty list the listing is left as it is.
\<close>

definition filter_stage :: "(string \<Rightarrow> string) \<Rightarrow> string list option \<Rightarrow> obj list \<Rightarrow> obj list" where
  "filter_stage lower extensions objects =
     (case extensions of
        None \<Rightarrow> objects
      | Some exts \<Rightarrow>
          if exts \<noteq> []
          then filter (\<lambda>ob. py_any (\<lambda>ext. endswith (lower (key ob)) (lower ext)) exts) objects
          else objects)"

text \<open>
  Lines 234 to 236: \<open>if max_files and len(objects) > max_files: objects = objects[:max_files]\<close>.
  An integer is true when it is not zero.
\<close>

definition truncate_stage :: "int option \<Rightarrow> 'a list \<Rightarrow> 'a list" where
  "truncate_stage max_files objects =
     (case max_files of
        None \<Rightarrow> objects
      | Some m \<Rightarrow> if m \<noteq> 0 \<and> int (length objects) > m then slice_to m objects else objects)"

section \<open>Path mapping\<close>

text \<open>
  Line 253: \<open>object_key[len(prefix):].lstrip('/')\<close>. The argument \<open>prefix\<close> of the
  source is written \<open>pfx\<close>.
\<close>

definition relative_path :: "string \<Rightarrow> string \<Rightarrow> string" where
  "relative_path pfx object_key = lstrip (CHR ''/'') (drop (length pfx) object_key)"

text \<open>Line 249: a key that ends in the separator is a directory marker.\<close>

definition is_marker :: "string \<Rightarrow> bool" where
  "is_marker object_key = endswith object_key ''/''"

section \<open>The storage client and the file system\<close>

text \<open>
  Everything outside the repository is a parameter. The state \<open>'w\<close> of the outside world
  (bucket contents, local files) is threaded through every call, so that a call may
  depend on what earlier calls did. Each operation returns the new state and either a
  value or the exception it raised.
  \<^item> \<open>paginate\<close>: iterating \<open>paginator.paginate(Bucket, Prefix, MaxItems)\<close>; a page is
    \<open>None\<close> when it has no entry \<open>Contents\<close>;
  \<^item> \<open>mkdir_parents\<close>: \<open>Path.mkdir(parents=True, exist_ok=True)\<close> on a directory;
  \<^item> \<open>head_object\<close>: the metadata call, returning \<open>ContentLength\<close>;
  \<^item> \<open>transfer\<close>: \<open>s3_client.download_file(bucket, key, filename)\<close> under the progress
    bar;
  \<^item> \<open>path_of\<close>, \<open>path_join\<close>, \<open>path_name\<close>, \<open>path_parent\<close>: \<open>str(Path(s))\<close>,
    \<open>str(Path(a) / b)\<close>, \<open>Path(s).name\<close> and \<open>str(Path(s).parent)\<close>;
  \<^item> \<open>lower\<close>: \<open>str.lower\<close>.
  Log lines and the progress bar's output are not modelled.
\<close>

record 'w env =
  paginate :: "'w \<Rightarrow> string \<Rightarrow> string \<Rightarrow> int \<Rightarrow> 'w \<times> (exn + obj list option list)"
  mkdir_parents :: "'w \<Rightarrow> string \<Rightarrow> 'w \<times> exn option"
  head_object :: "'w \<Rightarrow> string \<Rightarrow> string \<Rightarrow> 'w \<times> (exn + int)"
  transfer :: "'w \<Rightarrow> string \<Rightarrow> string \<Rightarrow> string \<Rightarrow> 'w \<times> exn option"
  path_of :: "string \<Rightarrow> string"
  path_join :: "string \<Rightarrow> string \<Rightarrow> string"
  path_name :: "string \<Rightarrow> string"
  path_parent :: "string \<Rightarrow> string"
  lower :: "string \<Rightarrow> string"

section \<open>Object lister\<close>

definition page_objects :: "obj list option list \<Rightarrow> obj list" where
  "page_objects pages = concat (map (\<lambda>page. case page of None \<Rightarrow> [] | Some contents \<Rightarrow> contents) pages)"

text \<open>
  \<open>list_objects\<close> (lines 90 to 134). Without a bucket name it returns the empty list; a
  \<open>ClientError\<close> during pagination is caught and gives the empty list; any other
  exception is not caught.
\<close>

definition list_objects ::
  "'w env \<Rightarrow> downloader \<Rightarrow> 'w \<Rightarrow> string option \<Rightarrow> string \<Rightarrow> int \<Rightarrow> 'w \<times> (exn + obj list)" where
  "list_objects env self w bucket_arg pfx max_keys =
     (case py_or bucket_arg (bucket_name self) of
        None \<Rightarrow> (w, Inr [])
      | Some bucket \<Rightarrow>
          if bucket = [] then (w, Inr [])
          else (case paginate env w bucket pfx max_keys of
                  (w1, Inr pages) \<Rightarrow> (w1, Inr (page_objects pages))
                | (w1, Inl (ClientError code)) \<Rightarrow> (w1, Inr [])
                | (w1, Inl (OtherException name)) \<Rightarrow> (w1, Inl (OtherException name))))"

section \<open>Downloader\<close>

text \<open>
  The two \<open>except\<close> clauses of \<open>download_file\<close> (lines 184 to 195): each branch logs and
  returns \<open>False\<close>.
\<close>

definition on_exception :: "exn \<Rightarrow> bool" where
  "on_exception e =
     (case e of
        ClientError error_code \<Rightarrow>
          if error_code = ''NoSuchKey'' then False
          else if error_code = ''NoSuchBucket'' then False
          else False
      | OtherException name \<Rightarrow> False)"

text \<open>
  \<open>download_file\<close> (lines 136 to 195). The result is \<open>Inr b\<close> when the method returns the
  boolean \<open>b\<close> and \<open>Inl e\<close> when the exception \<open>e\<close> leaves the method. The parent
  directory is created before the \<open>try\<close> statement is entered, so an exception of
  \<open>mkdir\<close> is not caught; the metadata call and the transfer are inside it.
  \<open>local_file_for\<close> is the choice of the local file in lines 157 to 160.
\<close>

definition local_file_for :: "'w env \<Rightarrow> downloader \<Rightarrow> string \<Rightarrow> string option \<Rightarrow> string" where
  "local_file_for env self object_key local_path =
     (case local_path of
        None \<Rightarrow> path_join env (download_path self) (path_name env object_key)
      | Some lp \<Rightarrow>
          if lp \<noteq> [] then path_of env lp
          else path_join env (download_path self) (path_name env object_key))"

definition download_file ::
  "'w env \<Rightarrow> downloader \<Rightarrow> 'w \<Rightarrow> string \<Rightarrow> string option \<Rightarrow> string option \<Rightarrow> 'w \<times> (exn + bool)" where
  "download_file env self w object_key local_path bucket_arg =
     (case py_or bucket_arg (bucket_name self) of
        None \<Rightarrow> (w, Inr False)
      | Some bucket \<Rightarrow>
          if bucket = [] then (w, Inr False)
          else
            let local_file = local_file_for env self object_key local_path
            in (case mkdir_parents env w (path_parent env local_file) of
                  (w1, Some e) \<Rightarrow> (w1, Inl e)
                | (w1, None) \<Rightarrow>
                    (case head_object env w1 bucket object_key of
                       (w2, Inl e) \<Rightarrow> (w2, Inr (on_exception e))
                     | (w2, Inr file_size) \<Rightarrow>
                         (case transfer env w2 bucket object_key local_file of
                            (w3, Some e) \<Rightarrow> (w3, Inr (on_exception e))
                          | (w3, None) \<Rightarrow> (w3, Inr True)))))"

section \<open>Batch orchestrator\<close>

text \<open>
  One call of \<open>download_file\<close> made by the loop: the key, the local path passed, and
  the boolean returned.
\<close>

type_synonym call = "string \<times> string \<times> bool"

text \<open>
  The \<open>for\<close> loop of \<open>download_directory\<close> (lines 245 to 260) over the local variables
  \<open>downloaded\<close>, \<open>failed\<close> and \<open>errors\<close>. The fourth component is the trace of the
  calls of \<open>download_file\<close>, which the source does not store. An exception leaving
  \<open>download_file\<close> leaves the loop.
\<close>

fun download_loop ::
  "'w env \<Rightarrow> downloader \<Rightarrow> string \<Rightarrow> string \<Rightarrow> obj list \<Rightarrow> 'w
     \<Rightarrow> int \<times> int \<times> string list \<times> call list
     \<Rightarrow> 'w \<times> (exn + int \<times> int \<times> string list \<times> call list)" where
  "download_loop env self pfx bucket [] w acc = (w, Inr acc)"
| "download_loop env self pfx bucket (ob # objects) w (n_downloaded, n_failed, errs, calls) =
     (let object_key = key ob in
      if is_marker object_key
      then download_loop env self pfx bucket objects w (n_downloaded, n_failed, errs, calls)
      else
        let local_file = path_join env (download_path self) (relative_path pfx object_key) in
        (case download_file env self w object_key (Some local_file) (Some bucket) of
           (w1, Inl e) \<Rightarrow> (w1, Inl e)
         | (w1, Inr True) \<Rightarrow>
             download_loop env self pfx bucket objects w1
               (n_downloaded + 1, n_failed, errs, calls @ [(object_key, local_file, True)])
         | (w1, Inr False) \<Rightarrow>
             download_loop env self pfx bucket objects w1
               (n_downloaded, n_failed + 1, errs @ [object_key],
                calls @ [(object_key, local_file, False)])))"

text \<open>
  Lines 226 to 236 together: the records the loop runs over, that is the listing after
  the extension filter and the cap.
\<close>

definition selected_objects :: "'w env \<Rightarrow> string list option \<Rightarrow> int option \<Rightarrow> obj list \<Rightarrow> obj list" where
  "selected_objects env extensions max_files listing =
     truncate_stage max_files (filter_stage (lower env) extensions listing)"

text \<open>
  \<open>download_directory\<close> (lines 197 to 271). It returns the statistics together with the
  trace of download calls. The listing is requested with the default \<open>max_keys\<close> of
  \<open>list_objects\<close>, 1000.
\<close>

definition download_directory ::
  "'w env \<Rightarrow> downloader \<Rightarrow> 'w \<Rightarrow> string \<Rightarrow> string list option \<Rightarrow> string option \<Rightarrow> int option
     \<Rightarrow> 'w \<times> (exn + stats \<times> call list)" where
  "download_directory env self w pfx extensions bucket_arg max_files =
     (let no_bucket = \<lparr>success = False, downloaded = 0, failed = 0, errors = [], total_files = None\<rparr>;
          no_objects = \<lparr>success = True, downloaded = 0, failed = 0, errors = [], total_files = None\<rparr>
      in case py_or bucket_arg (bucket_name self) of
        None \<Rightarrow> (w, Inr (no_bucket, []))
      | Some bucket \<Rightarrow>
          if bucket = [] then (w, Inr (no_bucket, []))
          else (case list_objects env self w (Some bucket) pfx 1000 of
                  (w1, Inl e) \<Rightarrow> (w1, Inl e)
                | (w1, Inr listing) \<Rightarrow>
                    if listing = [] then (w1, Inr (no_objects, []))
                    else
                      let objects = selected_objects env extensions max_files listing
                      in (case download_loop env self pfx bucket objects w1 (0, 0, [], []) of
                            (w2, Inl e) \<Rightarrow> (w2, Inl e)
                          | (w2, Inr (n_downloaded, n_failed, errs, calls)) \<Rightarrow>
                              (w2, Inr (\<lparr>success = (n_failed = 0), downloaded = n_downloaded,
                                         failed = n_failed, errors = errs,
                                         total_files = Some (int (length objects))\<rparr>, calls)))))"

section \<open>Report generator\<close>









section \<open>A storage client for running the model\<close>

text \<open>
  A small client on which the functions above can be evaluated. The world is the list of
  local files written so far. The bucket holds the records \<open>listing\<close> on one page; the
  keys in \<open>missing\<close> are reported as not found by the metadata call; directories can
  always be created; paths are joined with the separator.
\<close>

definition demo_obj :: "string \<Rightarrow> obj" where
  "demo_obj k = \<lparr>key = k, size_bytes = 1, last_modified = 0, etag = ''etag''\<rparr>"

definition demo_name :: "string \<Rightarrow> string" where
  "demo_name s = rev (takeWhile (\<lambda>c. c \<noteq> CHR ''/'') (rev s))"

definition demo_parent :: "string \<Rightarrow> string" where
  "demo_parent s = rev (drop 1 (dropWhile (\<lambda>c. c \<noteq> CHR ''/'') (rev s)))"

definition demo_env :: "obj list \<Rightarrow> string list \<Rightarrow> (string list) env" where
  "demo_env listing missing =
     \<lparr>paginate = (\<lambda>w bucket pfx max_keys. (w, Inr [Some listing])),
      mkdir_parents = (\<lambda>w dir. (w, None)),
      head_object = (\<lambda>w bucket k.
         if k \<in> set missing then (w, Inl (ClientError ''NoSuchKey'')) else (w, Inr 1)),
      transfer = (\<lambda>w bucket k file. (w @ [file], None)),
      path_of = (\<lambda>s. s),
      path_join = (\<lambda>a b. a @ ''/'' @ b),
      path_name = demo_name,
      path_parent = demo_parent,
      lower = ascii_lower\<rparr>"

definition demo_self :: downloader where
  "demo_self = \<lparr>bucket_name = Some ''my-bucket'', download_path = ''downloads''\<rparr>"

section \<open>Properties of the string and list operations\<close>

lemma endswith_suffix: "endswith s suf = suffix suf s"
proof
  assume "endswith s suf"
  then have "s = take (length s - length suf) s @ suf"
    by (metis append_take_drop_id endswith_def)
  then show "suffix suf s" by (rule suffixI)
next
  assume "suffix suf s"
  then obtain p where "s = p @ suf" by (auto simp: suffix_def)
  then show "endswith s suf" by (simp add: endswith_def)
qed

lemma py_any_iff: "py_any p xs = (\<exists>x\<in>set xs. p x)"
  by (induction xs) auto

lemma truncate_stage_positive:
  "0 < m \<Longrightarrow> truncate_stage (Some m) xs = take (nat m) xs"
  by (auto simp: truncate_stage_def slice_to_def)

lemma truncate_stage_Nil: "truncate_stage mf [] = []"
  by (auto simp: truncate_stage_def slice_to_def split: option.splits)

lemma filter_stage_Nil: "filter_stage lw exts [] = []"
  by (auto simp: filter_stage_def split: option.splits)

section \<open>Properties of the downloader and of the loop\<close>

lemma py_or_Some: "b \<noteq> [] \<Longrightarrow> py_or (Some b) x = Some b"
  by (simp add: py_or_def truthy_str_def)

lemma on_exception_False: "on_exception e = False"
  by (cases e) (simp_all add: on_exception_def)




lemma download_loop_trace:
  "download_loop env self pfx b objs w (d, f, es, cs) = (w', Inr (d', f', es', cs')) \<Longrightarrow>
   \<exists>new. cs' = cs @ new
     \<and> map fst new = filter (\<lambda>k. \<not> is_marker k) (map key objs)
     \<and> map (\<lambda>c. fst (snd c)) new
         = map (\<lambda>k. path_join env (download_path self) (relative_path pfx k))
             (filter (\<lambda>k. \<not> is_marker k) (map key objs))
     \<and> es' = es @ map fst (filter (\<lambda>c. \<not> snd (snd c)) new)
     \<and> f' = f + int (length (filter (\<lambda>c. \<not> snd (snd c)) new))
     \<and> d' = d + int (length (filter (\<lambda>c. snd (snd c)) new))"
proof (induction objs arbitrary: w d f es cs)
  case Nil
  then show ?case by simp
next
  case (Cons ob objs)
  show ?case
  proof (cases "is_marker (key ob)")
    case True
    with Cons.prems have "download_loop env self pfx b objs w (d, f, es, cs) = (w', Inr (d', f', es', cs'))"
      by simp
    from Cons.IH [OF this] True show ?thesis by simp
  next
    case False
    let ?lf = "path_join env (download_path self) (relative_path pfx (key ob))"
    obtain w1 r where df: "download_file env self w (key ob) (Some ?lf) (Some b) = (w1, r)"
      by (cases "download_file env self w (key ob) (Some ?lf) (Some b)")
    show ?thesis
    proof (cases r)
      case (Inl e)
      with Cons.prems False df show ?thesis by (simp add: Let_def)
    next
      case (Inr ok)
      show ?thesis
      proof (cases ok)
        case True
        with Cons.prems False df Inr
        have "download_loop env self pfx b objs w1 (d + 1, f, es, cs @ [(key ob, ?lf, True)])
                = (w', Inr (d', f', es', cs'))"
          by (simp add: Let_def)
        from Cons.IH [OF this] obtain new where
          "cs' = (cs @ [(key ob, ?lf, True)]) @ new"
          "map fst new = filter (\<lambda>k. \<not> is_marker k) (map key objs)"
          "map (\<lambda>c. fst (snd c)) new
             = map (\<lambda>k. path_join env (download_path self) (relative_path pfx k))
                 (filter (\<lambda>k. \<not> is_marker k) (map key objs))"
          "es' = es @ map fst (filter (\<lambda>c. \<not> snd (snd c)) new)"
          "f' = f + int (length (filter (\<lambda>c. \<not> snd (snd c)) new))"
          "d' = d + 1 + int (length (filter (\<lambda>c. snd (snd c)) new))"
          by blast
        with False show ?thesis
          by (intro exI [of _ "(key ob, ?lf, True) # new"]) simp
      next
        case False2: False
        with Cons.prems False df Inr
        have "download_loop env self pfx b objs w1 (d, f + 1, es @ [key ob], cs @ [(key ob, ?lf, False)])
                = (w', Inr (d', f', es', cs'))"
          by (simp add: Let_def)
        from Cons.IH [OF this] obtain new where
          "cs' = (cs @ [(key ob, ?lf, False)]) @ new"
          "map fst new = filter (\<lambda>k. \<not> is_marker k) (map key objs)"
          "map (\<lambda>c. fst (snd c)) new
             = map (\<lambda>k. path_join env (download_path self) (relative_path pfx k))
                 (filter (\<lambda>k. \<not> is_marker k) (map key objs))"
          "es' = (es @ [key ob]) @ map fst (filter (\<lambda>c. \<not> snd (snd c)) new)"
          "f' = f + 1 + int (length (filter (\<lambda>c. \<not> snd (snd c)) new))"
          "d' = d + int (length (filter (\<lambda>c. snd (snd c)) new))"
          by blast
        with False show ?thesis
          by (intro exI [of _ "(key ob, ?lf, False) # new"]) simp
      qed
    qed
  qed
qed


lemma download_directory_run:
  assumes bucket: "py_or bucket_arg (bucket_name self) = Some b" "b \<noteq> []"
      and listing: "list_objects env self w (Some b) pfx 1000 = (w1, Inr listing)"
      and run: "download_directory env self w pfx extensions bucket_arg max_files = (w', Inr (st, calls))"
  shows "map fst calls
           = filter (\<lambda>k. \<not> is_marker k) (map key (selected_objects env extensions max_files listing))
         \<and> map (\<lambda>c. fst (snd c)) calls
           = map (\<lambda>k. path_join env (download_path self) (relative_path pfx k))
               (filter (\<lambda>k. \<not> is_marker k) (map key (selected_objects env extensions max_files listing)))
         \<and> errors st = map fst (filter (\<lambda>c. \<not> snd (snd c)) calls)
         \<and> failed st = int (length (filter (\<lambda>c. \<not> snd (snd c)) calls))
         \<and> downloaded st = int (length (filter (\<lambda>c. snd (snd c)) calls))
         \<and> success st = (failed st = 0)
         \<and> total_files st
           = (if listing = [] then None
              else Some (int (length (selected_objects env extensions max_files listing))))"
proof (cases "listing = []")
  case True
  with bucket listing run have "st = \<lparr>success = True, downloaded = 0, failed = 0, errors = [], total_files = None\<rparr>"
    and "calls = []"
    by (simp_all add: download_directory_def)
  with True show ?thesis
    by (simp add: selected_objects_def filter_stage_Nil truncate_stage_Nil)
next
  case False
  let ?objs = "selected_objects env extensions max_files listing"
  obtain w2 r where loop: "download_loop env self pfx b ?objs w1 (0, 0, [], []) = (w2, r)"
    by (cases "download_loop env self pfx b ?objs w1 (0, 0, [], [])")
  from bucket listing run False loop obtain d f es cs where
    r: "r = Inr (d, f, es, cs)" and
    st: "st = \<lparr>success = (f = 0), downloaded = d, failed = f, errors = es,
               total_files = Some (int (length ?objs))\<rparr>" and
    calls: "calls = cs"
    by (cases r) (auto simp: download_directory_def Let_def)
  from download_loop_trace [OF loop [unfolded r]] False show ?thesis
    by (auto simp: st calls)
qed



lemma length_filter_partition:
  "length (filter P xs) + length (filter (\<lambda>x. \<not> P x) xs) = length xs"
  by (induction xs) auto

lemma download_file_True_completed:
  assumes "snd (download_file env self w k lp bucket_arg) = Inr True"
  shows "\<exists>b w1 w2 n w3.
           py_or bucket_arg (bucket_name self) = Some b \<and> b \<noteq> []
         \<and> mkdir_parents env w (path_parent env (local_file_for env self k lp)) = (w1, None)
         \<and> head_object env w1 b k = (w2, Inr n)
         \<and> transfer env w2 b k (local_file_for env self k lp) = (w3, None)"
  using assms
  by (auto simp: download_file_def Let_def on_exception_False
           split: option.splits if_splits prod.splits sum.splits)






lemma demo_bucket: "py_or None (bucket_name demo_self) = Some ''my-bucket''"
  by (simp add: py_or_def truthy_str_def demo_self_def)

lemma demo_listing:
  "list_objects (demo_env listing missing) demo_self [] (Some ''my-bucket'') pfx 1000 = ([], Inr listing)"
  by (simp add: list_objects_def py_or_def truthy_str_def demo_env_def page_objects_def)

section \<open>Verified properties\<close>

subsection \<open>Filter stage\<close>

text \<open>
  C5: with a non-empty allow-list the filter keeps exactly the records whose lower-cased
  key has the lower-cased form of some extension as a suffix, in the order of the
  listing; with an empty or absent allow-list the listing is returned unchanged.
\<close>

theorem filter_stage_exact:
  "(exts \<noteq> [] \<longrightarrow>
      filter_stage lw (Some exts) L
        = filter (\<lambda>ob. \<exists>ext\<in>set exts. suffix (lw ext) (lw (key ob))) L)
   \<and> filter_stage lw (Some []) L = L
   \<and> filter_stage lw None L = L"
  by (simp add: filter_stage_def py_any_iff endswith_suffix)

text \<open>
  The scenario of three objects with the allow-list \<open>.jpg\<close>, \<open>.png\<close>, the first key in
  upper case.
\<close>

theorem filter_stage_exact_witness:
  "[''.jpg'', ''.png''] \<noteq> []
   \<and> filter (\<lambda>ob. \<exists>ext\<in>set [''.jpg'', ''.png'']. suffix (ascii_lower ext) (ascii_lower (key ob)))
        [demo_obj ''A.JPG'', demo_obj ''b.txt'', demo_obj ''c.png'']
      = [demo_obj ''A.JPG'', demo_obj ''c.png'']"
proof -
  have "filter_stage ascii_lower (Some [''.jpg'', ''.png''])
          [demo_obj ''A.JPG'', demo_obj ''b.txt'', demo_obj ''c.png'']
        = [demo_obj ''A.JPG'', demo_obj ''c.png'']"
    by code_simp
  then show ?thesis
    using filter_stage_exact [of "[''.jpg'', ''.png'']" ascii_lower
        "[demo_obj ''A.JPG'', demo_obj ''b.txt'', demo_obj ''c.png'']"]
    by simp
qed

text \<open>
  C10: the filter stage preserves the relative order of the records it keeps: its result
  is a subsequence of the listing.
\<close>

theorem filter_stage_subseq: "subseq (filter_stage lw exts L) L"
  by (simp add: filter_stage_def split: option.splits)

subsection \<open>Truncation\<close>

text \<open>
  For a positive cap the truncation is the prefix of that length, so its length is the
  minimum of the cap and the length of the listing.
\<close>

lemma truncate_stage_positive_cap:
  "0 < m \<Longrightarrow>
   length (truncate_stage (Some m) xs) = min (length xs) (nat m)
   \<and> prefix (truncate_stage (Some m) xs) xs"
  by (simp add: truncate_stage_positive take_is_prefix)

text \<open>
  C2: a cap of \<open>0\<close> is a cap \<open>M \<ge> 0\<close>, and truncation to it should leave
  \<open>min(len(L), 0) = 0\<close> records. In the source the test \<open>if max_files and ...\<close> is
  false for \<open>0\<close>, so the listing is not truncated: with one object in the listing and
  \<open>max_files = 0\<close> the object is kept and downloaded.
\<close>

theorem truncate_stage_zero_cap:
  "truncate_stage (Some 0) [demo_obj ''a.txt''] = [demo_obj ''a.txt'']
   \<and> snd (download_directory (demo_env [demo_obj ''a.txt''] []) demo_self [] '''' None None (Some 0))
       = Inr (\<lparr>success = True, downloaded = 1, failed = 0, errors = [], total_files = Some 1\<rparr>,
              [(''a.txt'', ''downloads/a.txt'', True)])"
  by code_simp

subsection \<open>Path mapping\<close>

text \<open>
  C4, as stated, fails: the prefix is removed once, so a key that repeats the prefix is
  mapped to a path that still begins with it.
\<close>

theorem relative_path_repeated_prefix:
  "relative_path ''a/'' ''a/a/x'' = ''a/x'' \<and> prefix ''a/'' (relative_path ''a/'' ''a/a/x'')"
  by (simp add: relative_path_def lstrip_def)

text \<open>
  C4, amended: the relative path never starts with the separator; for a key that
  consists of the prefix followed by \<open>rest\<close> it is \<open>rest\<close> without its leading
  separators; for the prefix \<open>images/\<close> and the key \<open>images/sub/x.png\<close> it is
  \<open>sub/x.png\<close>.
\<close>

theorem relative_path_no_leading_separator:
  "\<not> prefix ''/'' (relative_path pfx object_key)
   \<and> relative_path pfx (pfx @ rest) = dropWhile (\<lambda>c. c = CHR ''/'') rest
   \<and> relative_path ''images/'' ''images/sub/x.png'' = ''sub/x.png''"
proof -
  have "\<not> prefix ''/'' (dropWhile (\<lambda>c. c = CHR ''/'') s)" for s
    by (induction s) auto
  then show ?thesis by (simp add: relative_path_def lstrip_def)
qed

subsection \<open>Batch orchestrator\<close>



text \<open>
  C1, as stated, fails: \<open>total_files\<close> is the number of records after the filter and the
  cap, directory markers included, while a marker is neither downloaded nor failed. With
  the marker \<open>docs/\<close> and one file in the listing, one file is downloaded, none fails,
  and \<open>total_files\<close> is 2.
\<close>

theorem download_directory_marker_counted:
  "snd (download_directory (demo_env [demo_obj ''docs/'', demo_obj ''docs/a.txt''] []) demo_self []
          ''docs/'' None None None)
   = Inr (\<lparr>success = True, downloaded = 1, failed = 0, errors = [], total_files = Some 2\<rparr>,
          [(''docs/a.txt'', ''downloads/a.txt'', True)])"
  by code_simp

text \<open>
  C1, amended: after a run that returns statistics, \<open>downloaded + failed\<close> plus the
  number of directory markers among the records selected by the filter and the cap is
  \<open>total_files\<close>, the number of those records (read as \<open>0\<close> where the dictionary of an
  empty listing has no such entry). So \<open>downloaded + failed \<le> total_files\<close>, with
  equality exactly when no selected key is a marker.
\<close>

theorem download_directory_counts:
  assumes "py_or bucket_arg (bucket_name self) = Some b" "b \<noteq> []"
      and "list_objects env self w (Some b) pfx 1000 = (w1, Inr listing)"
      and "download_directory env self w pfx extensions bucket_arg max_files = (w', Inr (st, calls))"
  shows "downloaded st + failed st
           + int (length (filter (\<lambda>ob. is_marker (key ob)) (selected_objects env extensions max_files listing)))
         = (case total_files st of None \<Rightarrow> 0 | Some t \<Rightarrow> t)
         \<and> total_files st
           = (if listing = [] then None
              else Some (int (length (selected_objects env extensions max_files listing))))
         \<and> (downloaded st + failed st = (case total_files st of None \<Rightarrow> 0 | Some t \<Rightarrow> t))
           = (\<forall>ob \<in> set (selected_objects env extensions max_files listing). \<not> is_marker (key ob))"
proof -
  let ?objs = "selected_objects env extensions max_files listing"
  note run = download_directory_run [OF assms]
  have "downloaded st + failed st = int (length calls)"
    using run length_filter_partition [of "\<lambda>c. snd (snd c)" calls] by simp
  also have "length calls = length (map fst calls)" by simp
  also have "\<dots> = length (filter (\<lambda>ob. \<not> is_marker (key ob)) ?objs)"
    using run by (simp add: filter_map comp_def)
  finally have sum: "downloaded st + failed st + int (length (filter (\<lambda>ob. is_marker (key ob)) ?objs))
      = int (length ?objs)"
    using length_filter_partition [of "\<lambda>ob. is_marker (key ob)" ?objs] by simp
  have empty: "listing = [] \<Longrightarrow> ?objs = []"
    by (simp add: selected_objects_def filter_stage_Nil truncate_stage_Nil)
  have total: "(case total_files st of None \<Rightarrow> 0 | Some t \<Rightarrow> t) = int (length ?objs)"
    using run empty by auto
  have "(downloaded st + failed st = int (length ?objs))
      = (filter (\<lambda>ob. is_marker (key ob)) ?objs = [])"
    using sum by auto
  also have "\<dots> = (\<forall>ob \<in> set ?objs. \<not> is_marker (key ob))"
    by (simp add: filter_empty_conv)
  finally show ?thesis using sum total run by simp
qed

text \<open>A marker, a file that downloads and a file that is not found.\<close>

theorem download_directory_counts_witness:
  "py_or None (bucket_name demo_self) = Some ''my-bucket''
   \<and> ''my-bucket'' \<noteq> []
   \<and> list_objects (demo_env [demo_obj ''docs/'', demo_obj ''docs/a.txt'', demo_obj ''docs/b.txt''] [''docs/b.txt''])
        demo_self [] (Some ''my-bucket'') ''docs/'' 1000
      = ([], Inr [demo_obj ''docs/'', demo_obj ''docs/a.txt'', demo_obj ''docs/b.txt''])
   \<and> download_directory (demo_env [demo_obj ''docs/'', demo_obj ''docs/a.txt'', demo_obj ''docs/b.txt''] [''docs/b.txt''])
        demo_self [] ''docs/'' None None None
      = ([''downloads/a.txt''],
         Inr (\<lparr>success = False, downloaded = 1, failed = 1, errors = [''docs/b.txt''], total_files = Some 3\<rparr>,
              [(''docs/a.txt'', ''downloads/a.txt'', True), (''docs/b.txt'', ''downloads/b.txt'', False)]))
   \<and> (1::int) + 1
        + int (length (filter (\<lambda>ob. is_marker (key ob))
            (selected_objects (demo_env [demo_obj ''docs/'', demo_obj ''docs/a.txt'', demo_obj ''docs/b.txt''] [''docs/b.txt''])
               None None [demo_obj ''docs/'', demo_obj ''docs/a.txt'', demo_obj ''docs/b.txt''])))
       = 3"
proof -
  let ?L = "[demo_obj ''docs/'', demo_obj ''docs/a.txt'', demo_obj ''docs/b.txt'']"
  let ?env = "demo_env ?L [''docs/b.txt'']"
  let ?st = "\<lparr>success = False, downloaded = 1, failed = 1, errors = [''docs/b.txt''], total_files = Some 3\<rparr>"
  have h1: "py_or None (bucket_name demo_self) = Some ''my-bucket''" by (rule demo_bucket)
  have h2: "''my-bucket'' \<noteq> []" by simp
  have h3: "list_objects ?env demo_self [] (Some ''my-bucket'') ''docs/'' 1000 = ([], Inr ?L)"
    by (rule demo_listing)
  have h4: "download_directory ?env demo_self [] ''docs/'' None None None
      = ([''downloads/a.txt''],
         Inr (?st, [(''docs/a.txt'', ''downloads/a.txt'', True), (''docs/b.txt'', ''downloads/b.txt'', False)]))"
    by code_simp
  from download_directory_counts [OF h1 h2 h3 h4] h1 h2 h3 h4 show ?thesis by simp
qed

text \<open>
  C3, as stated, fails for \<open>total_files\<close>: a listing that consists of one directory
  marker gives \<open>total_files = 1\<close>, with nothing downloaded, nothing failed and no
  download attempted.
\<close>

theorem download_directory_marker_in_total:
  "snd (download_directory (demo_env [demo_obj ''docs/''] []) demo_self [] ''docs/'' None None None)
   = Inr (\<lparr>success = True, downloaded = 0, failed = 0, errors = [], total_files = Some 1\<rparr>, [])"
  by code_simp

text \<open>
  C3, amended: after a run that returns statistics, no call of \<open>download_file\<close> was made
  for a key ending in the separator, no such key is in \<open>errors\<close>, and
  \<open>downloaded + failed\<close> is the number of selected records that are not markers; markers
  are counted in \<open>total_files\<close>, which for a non-empty listing is the number of all
  selected records.
\<close>

theorem download_directory_markers_skipped:
  assumes "py_or bucket_arg (bucket_name self) = Some b" "b \<noteq> []"
      and "list_objects env self w (Some b) pfx 1000 = (w1, Inr listing)"
      and "download_directory env self w pfx extensions bucket_arg max_files = (w', Inr (st, calls))"
  shows "(\<forall>c \<in> set calls. \<not> is_marker (fst c))
         \<and> (\<forall>k \<in> set (errors st). \<not> is_marker k)
         \<and> downloaded st + failed st
             = int (length (filter (\<lambda>ob. \<not> is_marker (key ob))
                              (selected_objects env extensions max_files listing)))
         \<and> (listing \<noteq> [] \<longrightarrow>
              total_files st = Some (int (length (selected_objects env extensions max_files listing))))"
proof -
  let ?objs = "selected_objects env extensions max_files listing"
  note run = download_directory_run [OF assms]
  from run have k: "map fst calls = filter (\<lambda>k. \<not> is_marker k) (map key ?objs)"
    and e: "errors st = map fst (filter (\<lambda>c. \<not> snd (snd c)) calls)"
    by simp_all
  have keys: "set (map fst calls) \<subseteq> {k. \<not> is_marker k}"
    unfolding k by auto
  then have calls: "\<forall>c \<in> set calls. \<not> is_marker (fst c)" by auto
  have "set (errors st) \<subseteq> set (map fst calls)"
    unfolding e by auto
  with keys have errs: "\<forall>k \<in> set (errors st). \<not> is_marker k" by blast
  have "downloaded st + failed st = int (length calls)"
    using run length_filter_partition [of "\<lambda>c. snd (snd c)" calls] by simp
  also have "length calls = length (map fst calls)" by simp
  also have "\<dots> = length (filter (\<lambda>ob. \<not> is_marker (key ob)) ?objs)"
    using run by (simp add: filter_map comp_def)
  finally have count: "downloaded st + failed st = int (length (filter (\<lambda>ob. \<not> is_marker (key ob)) ?objs))" .
  from calls errs count run show ?thesis by simp
qed

text \<open>Two markers around a file that is not found.\<close>

theorem download_directory_markers_skipped_witness:
  "py_or None (bucket_name demo_self) = Some ''my-bucket''
   \<and> ''my-bucket'' \<noteq> []
   \<and> list_objects (demo_env [demo_obj ''docs/'', demo_obj ''docs/gone.txt'', demo_obj ''docs/sub/''] [''docs/gone.txt''])
        demo_self [] (Some ''my-bucket'') ''docs/'' 1000
      = ([], Inr [demo_obj ''docs/'', demo_obj ''docs/gone.txt'', demo_obj ''docs/sub/''])
   \<and> download_directory (demo_env [demo_obj ''docs/'', demo_obj ''docs/gone.txt'', demo_obj ''docs/sub/''] [''docs/gone.txt''])
        demo_self [] ''docs/'' None None None
      = ([],
         Inr (\<lparr>success = False, downloaded = 0, failed = 1, errors = [''docs/gone.txt''], total_files = Some 3\<rparr>,
              [(''docs/gone.txt'', ''downloads/gone.txt'', False)]))
   \<and> [demo_obj ''docs/'', demo_obj ''docs/gone.txt'', demo_obj ''docs/sub/''] \<noteq> []
   \<and> \<not> is_marker ''docs/gone.txt''
   \<and> length (selected_objects (demo_env [demo_obj ''docs/'', demo_obj ''docs/gone.txt'', demo_obj ''docs/sub/''] [''docs/gone.txt''])
        None None [demo_obj ''docs/'', demo_obj ''docs/gone.txt'', demo_obj ''docs/sub/'']) = 3"
proof -
  let ?L = "[demo_obj ''docs/'', demo_obj ''docs/gone.txt'', demo_obj ''docs/sub/'']"
  let ?env = "demo_env ?L [''docs/gone.txt'']"
  let ?st = "\<lparr>success = False, downloaded = 0, failed = 1, errors = [''docs/gone.txt''], total_files = Some 3\<rparr>"
  have h1: "py_or None (bucket_name demo_self) = Some ''my-bucket''" by (rule demo_bucket)
  have h2: "''my-bucket'' \<noteq> []" by simp
  have h3: "list_objects ?env demo_self [] (Some ''my-bucket'') ''docs/'' 1000 = ([], Inr ?L)"
    by (rule demo_listing)
  have h4: "download_directory ?env demo_self [] ''docs/'' None None None
      = ([], Inr (?st, [(''docs/gone.txt'', ''downloads/gone.txt'', False)]))"
    by code_simp
  from download_directory_markers_skipped [OF h1 h2 h3 h4] h1 h2 h3 h4 show ?thesis by simp
qed




subsection \<open>Downloader\<close>



subsection \<open>Report generator\<close>



end
